theory Spec2Isabelle
  imports Main
begin

section \<open>JavaScript strings and errors\<close>

text \<open>
  Strings are lists of code units; only code units below 256 are represented
  (\<^typ>\<open>char\<close>).  Reading \<open>str[i]\<close> out of range yields \<open>undefined\<close> in
  JavaScript, which is \<^term>\<open>None\<close> here.
\<close>

definition backslash :: char where
  "backslash = CHR 0x5C"

definition char_at :: "string \<Rightarrow> nat \<Rightarrow> char option" where
  "char_at str i = (if i < length str then Some (str ! i) else None)"

text \<open>\<open>String(undefined)\<close>, as string concatenation in JavaScript renders it.\<close>

definition js_string_of :: "char option \<Rightarrow> string" where
  "js_string_of v = (case v of Some c \<Rightarrow> [c] | None \<Rightarrow> ''undefined'')"

text \<open>A value is truthy when it is defined and not the empty string.\<close>

definition truthy :: "string option \<Rightarrow> bool" where
  "truthy v = (case v of None \<Rightarrow> False | Some s \<Rightarrow> s \<noteq> [])"

text \<open>\<open>v || ""\<close> on a value that is a string or undefined.\<close>

definition or_empty :: "string option \<Rightarrow> string" where
  "or_empty v = (case v of None \<Rightarrow> [] | Some s \<Rightarrow> s)"

datatype lex_type = OPEN | CLOSE | PATTERN | NAME | CHAR_tok | ESCAPED_CHAR | MODIFIER | END

text \<open>The name of a Key is a string or a number (the ordinal of an unnamed pattern).\<close>

datatype key_name = Named string | Ordinal nat

text \<open>
  Every failure of the source is a \<open>TypeError\<close> with a message; the constructors carry
  what the message interpolates.  \<open>UndefinedProperty\<close> is the runtime \<open>TypeError\<close> of
  reading a property of \<open>undefined\<close>; \<open>RegExpSyntaxError\<close> is the \<open>SyntaxError\<close> of
  \<open>new RegExp\<close>; \<open>RegExpUnsupported\<close> marks regular-expression syntax outside the
  fragment modelled below.
\<close>

datatype error =
    MissingParameterName nat
  | PatternCannotStartWithQuestionMark nat
  | CapturingGroupNotAllowed nat
  | UnbalancedPattern nat
  | MissingPattern nat
  | UnexpectedToken lex_type nat lex_type
  | NotRepeatable key_name
  | EmptyRepeatable key_name
  | ValueDoesNotMatchPattern bool key_name string string
  | ExpectedStringOrArray key_name string
  | UndefinedProperty
  | RegExpSyntaxError
  | RegExpUnsupported

section \<open>Lexer\<close>

text \<open>
  The field \<open>value\<close> of a token is declared a string in the source, but the escape
  branch stores \<open>str[i]\<close> unchecked, so it can be \<open>undefined\<close>.
\<close>

record LexToken =
  tok_type :: lex_type
  tok_index :: nat
  tok_value :: "string option"

definition mk_tok :: "lex_type \<Rightarrow> nat \<Rightarrow> string option \<Rightarrow> LexToken" where
  "mk_tok ty i v = \<lparr>tok_type = ty, tok_index = i, tok_value = v\<rparr>"

definition is_name_code :: "nat \<Rightarrow> bool" where
  "is_name_code code \<longleftrightarrow>
     (48 \<le> code \<and> code \<le> 57) \<or> (65 \<le> code \<and> code \<le> 90) \<or>
     (97 \<le> code \<and> code \<le> 122) \<or> code = 95"

text \<open>The inner loop after a colon: returns the name read and the index it stopped at.\<close>

function scan_name :: "string \<Rightarrow> nat \<Rightarrow> string \<Rightarrow> string \<times> nat" where
  "scan_name str j nm =
     (if j < length str then
        (if is_name_code (of_char (str ! j)) then scan_name str (j + 1) (nm @ [str ! j])
         else (nm, j))
      else (nm, j))"
  by pat_completeness auto
termination
  by (relation "measure (\<lambda>(str, j, nm). length str - j)") auto

text \<open>
  The inner loop after an opening parenthesis.  It ends by \<open>break\<close> (count zero), by
  the end of the string, or by the throw for a capturing group; the result is the index,
  the count and the pattern text.
\<close>

function scan_pattern :: "string \<Rightarrow> nat \<Rightarrow> int \<Rightarrow> string \<Rightarrow> error + (nat \<times> int \<times> string)" where
  "scan_pattern str j count pat =
     (if j < length str then
        (if str ! j = backslash then
           scan_pattern str (j + 2) count (pat @ [str ! j] @ js_string_of (char_at str (j + 1)))
         else if str ! j = CHR '')'' then
           (if count - 1 = 0 then Inr (j + 1, count - 1, pat)
            else scan_pattern str (j + 1) (count - 1) (pat @ [str ! j]))
         else if str ! j = CHR ''('' then
           (if char_at str (j + 1) \<noteq> Some (CHR ''?'') then Inl (CapturingGroupNotAllowed j)
            else scan_pattern str (j + 1) (count + 1) (pat @ [str ! j]))
         else scan_pattern str (j + 1) count (pat @ [str ! j]))
      else Inr (j, count, pat))"
  by pat_completeness auto
termination
  by (relation "measure (\<lambda>(str, j, count, pat). length str - j)") auto

declare scan_name.simps [simp del]
declare scan_pattern.simps [simp del]

lemma scan_name_index: "j \<le> snd (scan_name str j nm)"
proof (induction str j nm rule: scan_name.induct)
  case (1 str j nm)
  show ?case
  proof (cases "j < length str \<and> is_name_code (of_char (str ! j))")
    case True
    with 1 have "j + 1 \<le> snd (scan_name str (j + 1) (nm @ [str ! j]))" by simp
    with True show ?thesis by (subst scan_name.simps) simp
  next
    case False
    then show ?thesis by (subst scan_name.simps) auto
  qed
qed

lemma scan_pattern_index:
  "scan_pattern str j count pat = Inr r \<Longrightarrow> j \<le> fst r"
proof (induction str j count pat rule: scan_pattern.induct)
  case (1 str j count pat)
  have eq: "scan_pattern str j count pat = Inr r" by (rule "1.prems")
  show ?case
  proof (cases "j < length str")
    case False
    with eq show ?thesis by (subst (asm) scan_pattern.simps) auto
  next
    case lt: True
    show ?thesis
    proof (cases "str ! j = backslash")
      case True
      with lt eq have "scan_pattern str (j + 2) count
          (pat @ [str ! j] @ js_string_of (char_at str (j + 1))) = Inr r"
        by (subst (asm) scan_pattern.simps) simp
      with "1.IH"(1) lt True show ?thesis by fastforce
    next
      case nb: False
      show ?thesis
      proof (cases "str ! j = CHR '')''")
        case True
        show ?thesis
        proof (cases "count - 1 = 0")
          case True
          with lt nb \<open>str ! j = CHR '')''\<close> eq show ?thesis
            by (subst (asm) scan_pattern.simps) auto
        next
          case False
          with lt nb \<open>str ! j = CHR '')''\<close> eq
          have "scan_pattern str (j + 1) (count - 1) (pat @ [str ! j]) = Inr r"
            by (subst (asm) scan_pattern.simps) simp
          with "1.IH"(2) lt nb \<open>str ! j = CHR '')''\<close> False show ?thesis by fastforce
        qed
      next
        case nc: False
        show ?thesis
        proof (cases "str ! j = CHR ''(''")
          case True
          with lt nb nc eq
          have q: "\<not> char_at str (j + 1) \<noteq> Some (CHR ''?'')"
            and "scan_pattern str (j + 1) (count + 1) (pat @ [str ! j]) = Inr r"
            by (subst (asm) scan_pattern.simps, simp split: if_splits)+
          with "1.IH"(3) lt nb nc True show ?thesis by fastforce
        next
          case False
          with lt nb nc eq
          have "scan_pattern str (j + 1) count (pat @ [str ! j]) = Inr r"
            by (subst (asm) scan_pattern.simps) simp
          with "1.IH"(4) lt nb nc False show ?thesis by fastforce
        qed
      qed
    qed
  qed
qed

function lexer_loop :: "string \<Rightarrow> nat \<Rightarrow> LexToken list \<Rightarrow> error + LexToken list" where
  "lexer_loop str i tokens =
     (if i < length str then
        (let char = str ! i in
         if char = CHR ''*'' \<or> char = CHR ''+'' \<or> char = CHR ''?'' then
           lexer_loop str (i + 1) (tokens @ [mk_tok MODIFIER i (Some [str ! i])])
         else if char = backslash then
           lexer_loop str (i + 2)
             (tokens @ [mk_tok ESCAPED_CHAR i (map_option (\<lambda>c. [c]) (char_at str (i + 1)))])
         else if char = CHR ''{'' then
           lexer_loop str (i + 1) (tokens @ [mk_tok OPEN i (Some [str ! i])])
         else if char = CHR ''}'' then
           lexer_loop str (i + 1) (tokens @ [mk_tok CLOSE i (Some [str ! i])])
         else if char = CHR '':'' then
           (case scan_name str (i + 1) [] of
              (nm, j) \<Rightarrow>
                if nm = [] then Inl (MissingParameterName i)
                else lexer_loop str j (tokens @ [mk_tok NAME i (Some nm)]))
         else if char = CHR ''('' then
           (if char_at str (i + 1) = Some (CHR ''?'') then
              Inl (PatternCannotStartWithQuestionMark (i + 1))
            else
              (case scan_pattern str (i + 1) 1 [] of
                 Inl e \<Rightarrow> Inl e
               | Inr (j, count, pat) \<Rightarrow>
                   if count \<noteq> 0 then Inl (UnbalancedPattern i)
                   else if pat = [] then Inl (MissingPattern i)
                   else lexer_loop str j (tokens @ [mk_tok PATTERN i (Some pat)])))
         else lexer_loop str (i + 1) (tokens @ [mk_tok CHAR_tok i (Some [str ! i])]))
      else Inr (tokens @ [mk_tok END i (Some [])]))"
  by pat_completeness auto
termination
proof (relation "measure (\<lambda>(str, i, tokens). length str - i)", goal_cases)
  case 1
  show ?case by simp
next
  case (6 str i tokens x xa y)
  have "i + 1 \<le> snd (scan_name str (i + 1) [])" by (rule scan_name_index)
  with 6 show ?case by (simp add: prod_eq_iff split: prod.splits)
next
  case (7 str i tokens x b xa y xb ya)
  then have "i + 1 \<le> xa" using scan_pattern_index [of str "i + 1" 1 "[]" b] by auto
  with 7 show ?case by simp
qed simp_all

declare lexer_loop.simps [simp del]

definition lexer :: "string \<Rightarrow> error + LexToken list" where
  "lexer str = lexer_loop str 0 []"

section \<open>Path tokens\<close>

record Key =
  name :: key_name
  prefix :: string
  suffix :: string
  pattern :: string
  modifier :: string

datatype Token = Str string | KeyT Key

text \<open>
  \<open>str.replace(/([.+*?=^!:${}()[\]|/\\])/g, "\\$1")\<close>: a backslash before each of the
  listed characters.
\<close>

definition escaped_chars :: "char list" where
  "escaped_chars = ''.+*?=^!:${}()[]|/'' @ [backslash]"

definition escapeString :: "string \<Rightarrow> string" where
  "escapeString str = concat (map (\<lambda>c. if c \<in> set escaped_chars then [backslash, c] else [c]) str)"

text \<open>\<open>s.indexOf(sub) > -1\<close>: \<open>sub\<close> occurs in \<open>s\<close> as a substring.\<close>

definition js_includes :: "string \<Rightarrow> string \<Rightarrow> bool" where
  "js_includes s sub = (\<exists>i \<in> set [0..<Suc (length s)]. take (length sub) (drop i s) = sub)"

section \<open>Parser\<close>

text \<open>
  The parser reads \<open>tokens[i]\<close> and only ever increments \<open>i\<close>, so its position is kept
  as the list of tokens from \<open>i\<close> on.  \<open>tryConsume\<close> returns the value of the token it
  consumed (which can be \<open>undefined\<close>) and the new position.
\<close>

definition tryConsume :: "lex_type \<Rightarrow> LexToken list \<Rightarrow> string option \<times> LexToken list" where
  "tryConsume ty ts =
     (case ts of
        [] \<Rightarrow> (None, [])
      | t # rest \<Rightarrow> if tok_type t = ty then (tok_value t, rest) else (None, ts))"

definition mustConsume :: "lex_type \<Rightarrow> LexToken list \<Rightarrow> error + (string \<times> LexToken list)" where
  "mustConsume ty ts =
     (case tryConsume ty ts of
        (Some v, rest) \<Rightarrow> Inr (v, rest)
      | (None, rest) \<Rightarrow>
          (case rest of
             [] \<Rightarrow> Inl UndefinedProperty
           | t # _ \<Rightarrow> Inl (UnexpectedToken (tok_type t) (tok_index t) ty)))"

lemma tryConsume_length: "length (snd (tryConsume ty ts)) \<le> length ts"
  by (simp add: tryConsume_def split: list.splits)

lemma tryConsume_Some_length: "fst (tryConsume ty ts) = Some v \<Longrightarrow> length (snd (tryConsume ty ts)) < length ts"
  by (auto simp: tryConsume_def split: list.splits if_splits)

function consumeText :: "LexToken list \<Rightarrow> string \<Rightarrow> string \<times> LexToken list" where
  "consumeText ts res =
     (let c = tryConsume CHAR_tok ts in
      if truthy (fst c) then consumeText (snd c) (res @ or_empty (fst c))
      else
        (let e = tryConsume ESCAPED_CHAR (snd c) in
         if truthy (fst e) then consumeText (snd e) (res @ or_empty (fst e))
         else (res, snd e)))"
  by pat_completeness auto
termination
proof (relation "measure (\<lambda>(ts, res). length ts)", goal_cases)
  case 1
  show ?case by simp
next
  case (2 ts res c)
  then obtain v where "fst (tryConsume CHAR_tok ts) = Some v"
    by (auto simp: truthy_def split: option.splits)
  from tryConsume_Some_length [OF this] 2 show ?case by simp
next
  case (3 ts res c e)
  then obtain v where "fst (tryConsume ESCAPED_CHAR (snd c)) = Some v"
    by (auto simp: truthy_def split: option.splits)
  from tryConsume_Some_length [OF this] tryConsume_length [of CHAR_tok ts] 3 show ?case by simp
qed

declare consumeText.simps [simp del]

lemma consumeText_length: "length (snd (consumeText ts res)) \<le> length ts"
proof (induction ts res rule: consumeText.induct)
  case (1 ts res)
  let ?c = "tryConsume CHAR_tok ts"
  let ?e = "tryConsume ESCAPED_CHAR (snd ?c)"
  have c: "length (snd ?c) \<le> length ts" by (rule tryConsume_length)
  have e: "length (snd ?e) \<le> length (snd ?c)" by (rule tryConsume_length)
  show ?case
  proof (cases "truthy (fst ?c)")
    case True
    with 1(1) [OF refl True] c show ?thesis by (subst consumeText.simps) (simp add: Let_def)
  next
    case nc: False
    show ?thesis
    proof (cases "truthy (fst ?e)")
      case True
      with 1(2) [OF refl nc refl True] nc c e show ?thesis
        by (subst consumeText.simps) (simp add: Let_def)
    next
      case False
      with nc c e show ?thesis by (subst consumeText.simps) (simp add: Let_def)
    qed
  qed
qed

text \<open>
  The state of the main loop: the position, the counter \<open>key\<close>, the pending literal
  \<open>path\<close> and the tokens pushed to \<open>result\<close>.
\<close>

type_synonym parse_state = "LexToken list \<times> nat \<times> string \<times> Token list"

text \<open>Flushing the pending literal: \<open>if (path) { result.push(path); path = "" }\<close>.\<close>

definition flush_path :: "string \<Rightarrow> Token list \<Rightarrow> string \<times> Token list" where
  "flush_path pth res = (if pth \<noteq> [] then ([], res @ [Str pth]) else (pth, res))"

text \<open>One iteration of the main loop of \<open>parse\<close>, entered with at least one token left.\<close>

definition parse_step :: "string \<Rightarrow> string \<Rightarrow> parse_state \<Rightarrow> error + parse_state" where
  "parse_step prefixes defaultPattern st =
     (case st of (ts, key, pth, res) \<Rightarrow>
      let c = tryConsume CHAR_tok ts;
          n = tryConsume NAME (snd c);
          p = tryConsume PATTERN (snd n);
          char = fst c; nm = fst n; pat = fst p
      in
      if truthy nm \<or> truthy pat then
        (let prefix0 = or_empty char;
             pth1 = (if \<not> js_includes prefixes prefix0 then pth @ prefix0 else pth);
             prefix1 = (if \<not> js_includes prefixes prefix0 then [] else prefix0);
             fl = flush_path pth1 res;
             m = tryConsume MODIFIER (snd p)
         in Inr (snd m, (if truthy nm then key else key + 1), fst fl,
               snd fl @ [KeyT \<lparr>name = (if truthy nm then Named (or_empty nm) else Ordinal key),
                                prefix = prefix1, suffix = [],
                                pattern = (if truthy pat then or_empty pat else defaultPattern),
                                modifier = or_empty (fst m)\<rparr>]))
      else
        (let e = (if truthy char then (None, snd p) else tryConsume ESCAPED_CHAR (snd p));
             v = (if truthy char then char else fst e)
         in
         if truthy v then Inr (snd e, key, pth @ or_empty v, res)
         else
           (let fl = flush_path pth res;
                opn = tryConsume OPEN (snd e)
            in
            if truthy (fst opn) then
              (let pre = consumeText (snd opn) [];
                   n2 = tryConsume NAME (snd pre);
                   p2 = tryConsume PATTERN (snd n2);
                   suf = consumeText (snd p2) [];
                   nm2 = or_empty (fst n2); pat2 = or_empty (fst p2)
               in
               case mustConsume CLOSE (snd suf) of
                 Inl err \<Rightarrow> Inl err
               | Inr cl \<Rightarrow>
                   (let m = tryConsume MODIFIER (snd cl)
                    in Inr (snd m, (if nm2 = [] \<and> pat2 \<noteq> [] then key + 1 else key), fst fl,
                          snd fl @ [KeyT \<lparr>name = (if nm2 \<noteq> [] then Named nm2
                                                   else if pat2 \<noteq> [] then Ordinal key else Named []),
                                           prefix = fst pre, suffix = fst suf,
                                           pattern = (if nm2 \<noteq> [] \<and> pat2 = [] then defaultPattern else pat2),
                                           modifier = or_empty (fst m)\<rparr>])))
            else
              (case mustConsume END (snd opn) of
                 Inl err \<Rightarrow> Inl err
               | Inr en \<Rightarrow> Inr (snd en, key, fst fl, snd fl)))))"

lemma mustConsume_length: "mustConsume ty ts = Inr r \<Longrightarrow> length (snd r) < length ts"
  by (auto simp: mustConsume_def tryConsume_def split: list.splits if_splits option.splits)

lemma truthy_Some: "truthy v \<Longrightarrow> \<exists>s. v = Some s"
  by (cases v) (simp_all add: truthy_def)

lemma parse_step_length:
  assumes "parse_step prefixes defaultPattern (ts, key, pth, res) = Inr st'"
  shows "length (fst st') < length ts"
proof -
  let ?c = "tryConsume CHAR_tok ts"
  let ?n = "tryConsume NAME (snd ?c)"
  let ?p = "tryConsume PATTERN (snd ?n)"
  have c: "length (snd ?c) \<le> length ts" by (rule tryConsume_length)
  have n: "length (snd ?n) \<le> length (snd ?c)" by (rule tryConsume_length)
  have p: "length (snd ?p) \<le> length (snd ?n)" by (rule tryConsume_length)
  show ?thesis
  proof (cases "truthy (fst ?n) \<or> truthy (fst ?p)")
    case True
    then have "length (snd ?p) < length ts"
      using c n p tryConsume_Some_length [of NAME "snd ?c"]
        tryConsume_Some_length [of PATTERN "snd ?n"]
      by (auto dest!: truthy_Some)
    moreover have "length (snd (tryConsume MODIFIER (snd ?p))) \<le> length (snd ?p)"
      by (rule tryConsume_length)
    ultimately show ?thesis using assms True
      by (auto simp: parse_step_def Let_def)
  next
    case np: False
    let ?e = "if truthy (fst ?c) then (None, snd ?p) else tryConsume ESCAPED_CHAR (snd ?p)"
    let ?v = "if truthy (fst ?c) then fst ?c else fst ?e"
    have e: "length (snd ?e) \<le> length (snd ?p)" using tryConsume_length by simp
    show ?thesis
    proof (cases "truthy ?v")
      case True
      have "length (snd ?e) < length ts"
      proof (cases "truthy (fst ?c)")
        case True
        then show ?thesis using c n p tryConsume_Some_length [of CHAR_tok ts]
          by (auto dest!: truthy_Some)
      next
        case False
        with True show ?thesis using c n p tryConsume_Some_length [of ESCAPED_CHAR "snd ?p"]
          by (auto dest!: truthy_Some)
      qed
      with assms np True show ?thesis by (auto simp: parse_step_def Let_def)
    next
      case nv: False
      let ?o = "tryConsume OPEN (snd ?e)"
      have o: "length (snd ?o) \<le> length (snd ?e)" by (rule tryConsume_length)
      show ?thesis
      proof (cases "truthy (fst ?o)")
        case True
        let ?pre = "consumeText (snd ?o) []"
        let ?n2 = "tryConsume NAME (snd ?pre)"
        let ?p2 = "tryConsume PATTERN (snd ?n2)"
        let ?suf = "consumeText (snd ?p2) []"
        have l: "length (snd ?suf) \<le> length ts"
          using c n p e o consumeText_length [of "snd ?o" "[]"] tryConsume_length [of NAME "snd ?pre"]
            tryConsume_length [of PATTERN "snd ?n2"] consumeText_length [of "snd ?p2" "[]"]
          by linarith
        from assms np nv True obtain cl where
          cl: "mustConsume CLOSE (snd ?suf) = Inr cl"
          and st': "fst st' = snd (tryConsume MODIFIER (snd cl))"
          by (auto simp: parse_step_def Let_def split: sum.splits)
        from mustConsume_length [OF cl] l tryConsume_length [of MODIFIER "snd cl"] st'
        show ?thesis by simp
      next
        case False
        from assms np nv False obtain en where
          en: "mustConsume END (snd ?o) = Inr en" and st': "fst st' = snd en"
          by (auto simp: parse_step_def Let_def split: sum.splits)
        from mustConsume_length [OF en] c n p e o st' show ?thesis by simp
      qed
    qed
  qed
qed

function parse_loop :: "string \<Rightarrow> string \<Rightarrow> parse_state \<Rightarrow> error + Token list" where
  "parse_loop prefixes defaultPattern st =
     (if fst st = [] then Inr (snd (snd (snd st)))
      else
        (case parse_step prefixes defaultPattern st of
           Inl err \<Rightarrow> Inl err
         | Inr st' \<Rightarrow> parse_loop prefixes defaultPattern st'))"
  by pat_completeness auto
termination
proof (relation "measure (\<lambda>(prefixes, defaultPattern, st). length (fst st))", goal_cases)
  case 1
  show ?case by simp
next
  case (2 prefixes defaultPattern st st')
  obtain ts key pth res where st: "st = (ts, key, pth, res)" by (cases st) auto
  from 2 parse_step_length [of prefixes defaultPattern ts key pth res st'] st
  show ?case by simp
qed

declare parse_loop.simps [simp del]

text \<open>The options of \<open>parse\<close>; an absent option is \<^term>\<open>None\<close>.\<close>

record ParseOptions =
  delimiter :: "string option"
  prefixes :: "string option"

text \<open>\<open>options.delimiter || "/#?"\<close> and \<open>options.prefixes ?? "./"\<close>.\<close>

definition delimiter_or_default :: "string option \<Rightarrow> string" where
  "delimiter_or_default d = (if truthy d then or_empty d else ''/#?'')"

definition prefixes_or_default :: "string option \<Rightarrow> string" where
  "prefixes_or_default p = (case p of None \<Rightarrow> ''./'' | Some s \<Rightarrow> s)"

definition defaultPattern_of :: "string option \<Rightarrow> string" where
  "defaultPattern_of d = ''[^'' @ escapeString (delimiter_or_default d) @ '']+?''"

definition parse :: "string \<Rightarrow> 'a ParseOptions_scheme \<Rightarrow> error + Token list" where
  "parse str options =
     (case lexer str of
        Inl err \<Rightarrow> Inl err
      | Inr tokens \<Rightarrow>
          parse_loop (prefixes_or_default (prefixes options))
            (defaultPattern_of (delimiter options)) (tokens, 0, [], []))"

section \<open>Regular expressions\<close>

text \<open>
  The source hands its patterns to the regular-expression engine of the JavaScript
  runtime (\<open>new RegExp\<close>, \<open>exec\<close>, \<open>test\<close>).  The engine is modelled for the syntax
  the compiler emits: characters and identity escapes, the class escapes \<open>\d \w \s\<close> and
  their complements, the dot, character classes with ranges, capturing and non-capturing
  groups, lookahead, alternation, the anchors, and the quantifiers \<open>* + ?\<close> with their
  lazy forms.  Other syntax (braces, back-references, named groups, look-behind, other
  letter escapes) is reported as \<^term>\<open>RegExpUnsupported\<close>.  Matching follows the
  backtracking semantics of ECMAScript: a matcher yields the states it can end in, in the
  order backtracking tries them.
\<close>

datatype class_item =
    CChar char | CRange char char
  | CDigit | CNotDigit | CWord | CNotWord | CSpace | CNotSpace

datatype regex =
    REmpty
  | RChar char
  | RAny
  | RClass bool "class_item list"
  | RSeq regex regex
  | RAlt regex regex
  | RGroup nat regex
  | RLook bool regex
  | RStar bool regex
  | RPlus bool regex
  | ROpt bool regex
  | RBol
  | REol

subsection \<open>Reading the source of a regular expression\<close>

datatype rtok =
    TAtom regex
  | TAssert regex
  | TOpenCapture
  | TOpenNonCapture
  | TOpenLookahead bool
  | TCloseGroup
  | TBar
  | TQuant char

definition is_alnum :: "char \<Rightarrow> bool" where
  "is_alnum c \<longleftrightarrow>
     (let n = (of_char c :: nat) in
      (48 \<le> n \<and> n \<le> 57) \<or> (65 \<le> n \<and> n \<le> 90) \<or> (97 \<le> n \<and> n \<le> 122))"

text \<open>The class escapes; any other letter or digit after a backslash is not modelled.\<close>

definition class_escape :: "char \<Rightarrow> class_item option" where
  "class_escape d =
     (if d = CHR ''d'' then Some CDigit else if d = CHR ''D'' then Some CNotDigit
      else if d = CHR ''w'' then Some CWord else if d = CHR ''W'' then Some CNotWord
      else if d = CHR ''s'' then Some CSpace else if d = CHR ''S'' then Some CNotSpace
      else if is_alnum d then None
      else Some (CChar d))"

definition atom_of_escape :: "char \<Rightarrow> regex option" where
  "atom_of_escape d =
     (case class_escape d of
        None \<Rightarrow> None
      | Some (CChar c) \<Rightarrow> Some (RChar c)
      | Some it \<Rightarrow> Some (RClass False [it]))"

text \<open>One member of a character class: a character or an escape.\<close>

definition class_atom :: "string \<Rightarrow> error + (class_item \<times> string)" where
  "class_atom s =
     (case s of
        [] \<Rightarrow> Inl RegExpSyntaxError
      | c # s1 \<Rightarrow>
          if c = backslash then
            (case s1 of
               [] \<Rightarrow> Inl RegExpSyntaxError
             | d # s2 \<Rightarrow>
                 (case class_escape d of
                    None \<Rightarrow> Inl RegExpUnsupported
                  | Some it \<Rightarrow> Inr (it, s2)))
          else Inr (CChar c, s1))"

lemma class_atom_length: "class_atom s = Inr r \<Longrightarrow> length (snd r) < length s"
  by (auto simp: class_atom_def split: list.splits if_splits option.splits)

text \<open>
  The members of a class up to the closing bracket.  A hyphen between two characters
  makes a range; next to the closing bracket it is a character.
\<close>

function class_items :: "string \<Rightarrow> error + (class_item list \<times> string)" where
  "class_items s =
     (case s of
        [] \<Rightarrow> Inl RegExpSyntaxError
      | c # s0 \<Rightarrow>
          if c = CHR '']'' then Inr ([], s0)
          else
            (case class_atom s of
               Inl e \<Rightarrow> Inl e
             | Inr a \<Rightarrow>
                 if take 1 (snd a) = ''-'' \<and> drop 1 (snd a) \<noteq> [] \<and> take 1 (drop 1 (snd a)) \<noteq> '']'' then
                   (case class_atom (drop 1 (snd a)) of
                      Inl e \<Rightarrow> Inl e
                    | Inr b \<Rightarrow>
                        (case (fst a, fst b) of
                           (CChar lo, CChar hi) \<Rightarrow>
                             if (of_char hi :: nat) < of_char lo then Inl RegExpSyntaxError
                             else
                               (case class_items (snd b) of
                                  Inl e \<Rightarrow> Inl e
                                | Inr r \<Rightarrow> Inr (CRange lo hi # fst r, snd r))
                         | _ \<Rightarrow> Inl RegExpUnsupported))
                 else
                   (case class_items (snd a) of
                      Inl e \<Rightarrow> Inl e
                    | Inr r \<Rightarrow> Inr (fst a # fst r, snd r))))"
  by pat_completeness auto
termination
proof (relation "measure length", goal_cases)
  case 1
  show ?case by simp
next
  case (2 s c s0 a b x y lo hi)
  from class_atom_length [OF 2(3)] class_atom_length [OF 2(5)] show ?case by simp
next
  case (3 s c s0 a)
  from class_atom_length [OF 3(3)] show ?case by simp
qed

declare class_items.simps [simp del]

lemma class_items_length: "class_items s = Inr r \<Longrightarrow> length (snd r) < length s"
proof (induction s arbitrary: r rule: class_items.induct)
  case (1 s)
  from "1.prems" obtain c s0 where s: "s = c # s0"
    by (subst (asm) class_items.simps) (auto split: list.splits)
  show ?case
  proof (cases "c = CHR '']''")
    case True
    with "1.prems" s show ?thesis by (subst (asm) class_items.simps) auto
  next
    case nc: False
    with "1.prems" s obtain a where a: "class_atom s = Inr a"
      by (subst (asm) class_items.simps) (auto split: sum.splits)
    note la = class_atom_length [OF a]
    show ?thesis
    proof (cases "take 1 (snd a) = ''-'' \<and> drop 1 (snd a) \<noteq> [] \<and> take 1 (drop 1 (snd a)) \<noteq> '']''")
      case True
      with "1.prems" s nc a obtain b lo hi r' where b: "class_atom (drop 1 (snd a)) = Inr b"
        and ab: "fst a = CChar lo" "fst b = CChar hi" and ord: "\<not> (of_char hi :: nat) < of_char lo"
        and r': "class_items (snd b) = Inr r'" and r: "snd r = snd r'"
        by (subst (asm) class_items.simps)
          (auto split: sum.splits class_item.splits if_splits)
      have "length (snd r') < length (snd b)"
        using "1.IH"(1) [OF s nc a True b _ ab(1) ab(2) ord r'] ab
        by (cases a; cases b) auto
      with class_atom_length [OF b] la r show ?thesis by simp
    next
      case False
      with "1.prems" s nc a obtain r' where r': "class_items (snd a) = Inr r'" and r: "snd r = snd r'"
        by (subst (asm) class_items.simps) (auto split: sum.splits)
      from "1.IH"(2) [OF s nc a False r'] la r show ?thesis by simp
    qed
  qed
qed

text \<open>The class after an opening bracket, with its optional negation.\<close>

definition scan_class :: "string \<Rightarrow> error + (regex \<times> string)" where
  "scan_class s =
     (if take 1 s = ''^'' then
        (case class_items (drop 1 s) of
           Inl e \<Rightarrow> Inl e
         | Inr r \<Rightarrow> Inr (RClass True (fst r), snd r))
      else
        (case class_items s of
           Inl e \<Rightarrow> Inl e
         | Inr r \<Rightarrow> Inr (RClass False (fst r), snd r)))"

lemma scan_class_length: "scan_class s = Inr r \<Longrightarrow> length (snd r) < Suc (length s)"
  by (auto simp: scan_class_def split: if_splits sum.splits dest!: class_items_length)

definition cons_tok :: "rtok \<Rightarrow> error + rtok list \<Rightarrow> error + rtok list" where
  "cons_tok t r = (case r of Inl e \<Rightarrow> Inl e | Inr ts \<Rightarrow> Inr (t # ts))"

function retokens :: "string \<Rightarrow> error + rtok list" where
  "retokens s =
     (case s of
        [] \<Rightarrow> Inr []
      | c # s1 \<Rightarrow>
          if c = backslash then
            (case s1 of
               [] \<Rightarrow> Inl RegExpSyntaxError
             | d # s2 \<Rightarrow>
                 (case atom_of_escape d of
                    None \<Rightarrow> Inl RegExpUnsupported
                  | Some a \<Rightarrow> cons_tok (TAtom a) (retokens s2)))
          else if c = CHR ''['' then
            (case scan_class s1 of
               Inl e \<Rightarrow> Inl e
             | Inr r \<Rightarrow> cons_tok (TAtom (fst r)) (retokens (snd r)))
          else if c = CHR ''('' then
            (if take 2 s1 = ''?:'' then cons_tok TOpenNonCapture (retokens (drop 2 s1))
             else if take 2 s1 = ''?='' then cons_tok (TOpenLookahead True) (retokens (drop 2 s1))
             else if take 2 s1 = ''?!'' then cons_tok (TOpenLookahead False) (retokens (drop 2 s1))
             else if take 1 s1 = ''?'' then Inl RegExpUnsupported
             else cons_tok TOpenCapture (retokens s1))
          else if c = CHR '')'' then cons_tok TCloseGroup (retokens s1)
          else if c = CHR ''|'' then cons_tok TBar (retokens s1)
          else if c = CHR ''*'' \<or> c = CHR ''+'' \<or> c = CHR ''?'' then cons_tok (TQuant c) (retokens s1)
          else if c = CHR ''^'' then cons_tok (TAssert RBol) (retokens s1)
          else if c = CHR ''$'' then cons_tok (TAssert REol) (retokens s1)
          else if c = CHR ''.'' then cons_tok (TAtom RAny) (retokens s1)
          else if c = CHR ''{'' \<or> c = CHR ''}'' \<or> c = CHR '']'' then Inl RegExpUnsupported
          else cons_tok (TAtom (RChar c)) (retokens s1))"
  by pat_completeness auto
termination
proof (relation "measure length", goal_cases)
  case 1
  show ?case by simp
next
  case (3 s c s1 r)
  from scan_class_length [OF 3(4)] 3 show ?case by simp
qed auto

declare retokens.simps [simp del]

subsection \<open>Building the expression\<close>

text \<open>
  The tokens are folded over a stack of open groups.  A frame holds the kind of its
  group, the alternatives already closed by a bar and the terms of the current
  alternative (both latest first); every term records whether a quantifier may follow.
  Capturing groups are numbered by their opening parenthesis, left to right.
\<close>

datatype gkind = GRoot | GCapture nat | GNonCapture | GLook bool

datatype qstate = QAssert | QLook | QAtom | QGreedy | QDone

type_synonym frame = "gkind \<times> regex list \<times> (regex \<times> qstate) list"

fun seq_of :: "regex list \<Rightarrow> regex" where
  "seq_of [] = REmpty"
| "seq_of [r] = r"
| "seq_of (r # rs) = RSeq r (seq_of rs)"

fun alt_of :: "regex list \<Rightarrow> regex" where
  "alt_of [] = REmpty"
| "alt_of [r] = r"
| "alt_of (r # rs) = RAlt r (alt_of rs)"

definition close_frame :: "regex list \<Rightarrow> (regex \<times> qstate) list \<Rightarrow> regex" where
  "close_frame alts cur = alt_of (rev (seq_of (rev (map fst cur)) # alts))"

definition quantify :: "char \<Rightarrow> regex \<Rightarrow> regex" where
  "quantify q r = (if q = CHR ''*'' then RStar True r else if q = CHR ''+'' then RPlus True r else ROpt True r)"

fun make_lazy :: "regex \<Rightarrow> regex" where
  "make_lazy (RStar g r) = RStar False r"
| "make_lazy (RPlus g r) = RPlus False r"
| "make_lazy (ROpt g r) = ROpt False r"
| "make_lazy r = r"

fun parse_rtoks :: "rtok list \<Rightarrow> frame list \<Rightarrow> nat \<Rightarrow> error + (regex \<times> nat)" where
  "parse_rtoks [] stack n =
     (case stack of
        [(GRoot, alts, cur)] \<Rightarrow> Inr (close_frame alts cur, n)
      | _ \<Rightarrow> Inl RegExpSyntaxError)"
| "parse_rtoks (t # ts) stack n =
     (case stack of
        [] \<Rightarrow> Inl RegExpSyntaxError
      | (k, alts, cur) # below \<Rightarrow>
          (case t of
             TAtom a \<Rightarrow> parse_rtoks ts ((k, alts, (a, QAtom) # cur) # below) n
           | TAssert a \<Rightarrow> parse_rtoks ts ((k, alts, (a, QAssert) # cur) # below) n
           | TOpenCapture \<Rightarrow> parse_rtoks ts ((GCapture (n + 1), [], []) # stack) (n + 1)
           | TOpenNonCapture \<Rightarrow> parse_rtoks ts ((GNonCapture, [], []) # stack) n
           | TOpenLookahead b \<Rightarrow> parse_rtoks ts ((GLook b, [], []) # stack) n
           | TBar \<Rightarrow> parse_rtoks ts ((k, seq_of (rev (map fst cur)) # alts, []) # below) n
           | TCloseGroup \<Rightarrow>
               (case below of
                  [] \<Rightarrow> Inl RegExpSyntaxError
                | (k', alts', cur') # below' \<Rightarrow>
                    (let body = close_frame alts cur;
                         term = (case k of
                                   GCapture i \<Rightarrow> (RGroup i body, QAtom)
                                 | GLook b \<Rightarrow> (RLook b body, QLook)
                                 | _ \<Rightarrow> (body, QAtom))
                     in parse_rtoks ts ((k', alts', term # cur') # below') n))
           | TQuant q \<Rightarrow>
               (case cur of
                  [] \<Rightarrow> Inl RegExpSyntaxError
                | (r, QAtom) # cur' \<Rightarrow> parse_rtoks ts ((k, alts, (quantify q r, QGreedy) # cur') # below) n
                | (r, QGreedy) # cur' \<Rightarrow>
                    if q = CHR ''?'' then parse_rtoks ts ((k, alts, (make_lazy r, QDone) # cur') # below) n
                    else Inl RegExpSyntaxError
                | (r, QLook) # cur' \<Rightarrow> Inl RegExpUnsupported
                | _ \<Rightarrow> Inl RegExpSyntaxError)))"

text \<open>
  A compiled regular expression: its source, whether the flag \<open>i\<close> is set (the only
  flag the source ever passes), the expression and the number of capturing groups.
\<close>

record RegExp =
  source :: string
  ignoreCase :: bool
  re_body :: regex
  re_groups :: nat

definition RegExp_new :: "string \<Rightarrow> string \<Rightarrow> error + RegExp" where
  "RegExp_new src flags =
     (case retokens src of
        Inl e \<Rightarrow> Inl e
      | Inr ts \<Rightarrow>
          (case parse_rtoks ts [(GRoot, [], [])] 0 of
             Inl e \<Rightarrow> Inl e
           | Inr r \<Rightarrow> Inr \<lparr>source = src, ignoreCase = (flags = ''i''), re_body = fst r, re_groups = snd r\<rparr>))"

subsection \<open>Matching\<close>

text \<open>
  With the flag \<open>i\<close> characters are compared after canonicalisation (upper case).  For
  code units below 256 the letters with an upper-case partner in that range are
  \<open>a\<close>--\<open>z\<close> and \<open>0xE0\<close>--\<open>0xFE\<close> without \<open>0xF7\<close>.
\<close>

definition canonicalize :: "bool \<Rightarrow> char \<Rightarrow> char" where
  "canonicalize ic c =
     (let n = (of_char c :: nat) in
      if ic \<and> ((97 \<le> n \<and> n \<le> 122) \<or> (224 \<le> n \<and> n \<le> 254 \<and> n \<noteq> 247))
      then char_of (n - 32) else c)"

definition is_digit :: "char \<Rightarrow> bool" where
  "is_digit c \<longleftrightarrow> (let n = (of_char c :: nat) in 48 \<le> n \<and> n \<le> 57)"

definition is_word :: "char \<Rightarrow> bool" where
  "is_word c \<longleftrightarrow> is_alnum c \<or> c = CHR ''_''"

definition is_space :: "char \<Rightarrow> bool" where
  "is_space c \<longleftrightarrow> (let n = (of_char c :: nat) in (9 \<le> n \<and> n \<le> 13) \<or> n = 32 \<or> n = 160)"

definition chars_between :: "char \<Rightarrow> char \<Rightarrow> char list" where
  "chars_between lo hi = map char_of [of_char lo ..< Suc (of_char hi)]"

fun item_mem :: "bool \<Rightarrow> class_item \<Rightarrow> char \<Rightarrow> bool" where
  "item_mem ic (CChar a) c = (canonicalize ic a = canonicalize ic c)"
| "item_mem ic (CRange lo hi) c = (\<exists>a \<in> set (chars_between lo hi). canonicalize ic a = canonicalize ic c)"
| "item_mem ic CDigit c = is_digit c"
| "item_mem ic CNotDigit c = (\<not> is_digit c)"
| "item_mem ic CWord c = is_word c"
| "item_mem ic CNotWord c = (\<not> is_word c)"
| "item_mem ic CSpace c = is_space c"
| "item_mem ic CNotSpace c = (\<not> is_space c)"

definition class_mem :: "bool \<Rightarrow> class_item list \<Rightarrow> char \<Rightarrow> bool" where
  "class_mem ic items c = (\<exists>it \<in> set items. item_mem ic it c)"

text \<open>
  A state of the matcher: the input not yet consumed and the captures (\<open>m[1]\<close>,
  \<open>m[2]\<close>, ...; \<^term>\<open>None\<close> is \<open>undefined\<close>).
\<close>

type_synonym mstate = "string \<times> string option list"

fun groups_in :: "regex \<Rightarrow> nat list" where
  "groups_in (RSeq a b) = groups_in a @ groups_in b"
| "groups_in (RAlt a b) = groups_in a @ groups_in b"
| "groups_in (RGroup n r) = n # groups_in r"
| "groups_in (RLook b r) = groups_in r"
| "groups_in (RStar g r) = groups_in r"
| "groups_in (RPlus g r) = groups_in r"
| "groups_in (ROpt g r) = groups_in r"
| "groups_in r = []"

text \<open>Each iteration of a quantifier starts with the captures of its body cleared.\<close>

definition reset_caps :: "regex \<Rightarrow> string option list \<Rightarrow> string option list" where
  "reset_caps r caps = fold (\<lambda>n cs. cs[n - 1 := None]) (groups_in r) caps"

fun rsize :: "regex \<Rightarrow> nat" where
  "rsize (RSeq a b) = Suc (rsize a + rsize b)"
| "rsize (RAlt a b) = Suc (rsize a + rsize b)"
| "rsize (RGroup n r) = Suc (rsize r)"
| "rsize (RLook b r) = Suc (rsize r)"
| "rsize (RStar g r) = Suc (rsize r)"
| "rsize (RPlus g r) = Suc (Suc (rsize r))"
| "rsize (ROpt g r) = Suc (rsize r)"
| "rsize r = 0"

text \<open>
  \<open>matchR ic inp r x\<close>: the states in which \<open>r\<close> can end when started in \<open>x\<close>, in the
  order of backtracking.  An iteration of \<open>*\<close> or \<open>?\<close> that consumes nothing is rejected,
  as ECMAScript's RepeatMatcher does.
\<close>

function matchR :: "bool \<Rightarrow> string \<Rightarrow> regex \<Rightarrow> mstate \<Rightarrow> mstate list" where
  "matchR ic inp REmpty x = [x]"
| "matchR ic inp (RChar c) x =
     (case fst x of
        [] \<Rightarrow> []
      | d # rest \<Rightarrow> if canonicalize ic c = canonicalize ic d then [(rest, snd x)] else [])"
| "matchR ic inp RAny x =
     (case fst x of
        [] \<Rightarrow> []
      | d # rest \<Rightarrow> if d = CHR 0x0A \<or> d = CHR 0x0D then [] else [(rest, snd x)])"
| "matchR ic inp (RClass neg items) x =
     (case fst x of
        [] \<Rightarrow> []
      | d # rest \<Rightarrow> if class_mem ic items d \<noteq> neg then [(rest, snd x)] else [])"
| "matchR ic inp (RSeq a b) x = concat (map (matchR ic inp b) (matchR ic inp a x))"
| "matchR ic inp (RAlt a b) x = matchR ic inp a x @ matchR ic inp b x"
| "matchR ic inp (RGroup n r) x =
     map (\<lambda>y. (fst y, (snd y)[n - 1 := Some (take (length (fst x) - length (fst y)) (fst x))]))
       (matchR ic inp r x)"
| "matchR ic inp (RLook pos r) x =
     (case matchR ic inp r x of
        [] \<Rightarrow> if pos then [] else [x]
      | y # _ \<Rightarrow> if pos then [(fst x, snd y)] else [])"
| "matchR ic inp (RStar g r) x =
     (let it = concat (map (\<lambda>y. if length (fst y) < length (fst x)
                                  then matchR ic inp (RStar g r) y else [])
                        (matchR ic inp r (fst x, reset_caps r (snd x))))
      in if g then it @ [x] else x # it)"
| "matchR ic inp (RPlus g r) x =
     concat (map (matchR ic inp (RStar g r)) (matchR ic inp r (fst x, reset_caps r (snd x))))"
| "matchR ic inp (ROpt g r) x =
     (let it = filter (\<lambda>y. length (fst y) < length (fst x))
                 (matchR ic inp r (fst x, reset_caps r (snd x)))
      in if g then it @ [x] else x # it)"
| "matchR ic inp RBol x = (if length (fst x) = length inp then [x] else [])"
| "matchR ic inp REol x = (if fst x = [] then [x] else [])"
  by pat_completeness auto
termination
  by (relation "inv_image (less_than <*lex*> less_than) (\<lambda>(ic, inp, r, x). (rsize r, length (fst x)))")
    auto

text \<open>
  \<open>re.exec(str)\<close> for an expression without the flags \<open>g\<close> and \<open>y\<close>: the first start
  index at which the expression matches, with the index, the match and the captures.
\<close>

fun exec_loop :: "bool \<Rightarrow> string \<Rightarrow> regex \<Rightarrow> nat \<Rightarrow> string \<Rightarrow> nat \<Rightarrow> (nat \<times> string \<times> string option list) option" where
  "exec_loop ic inp r n rest k =
     (case matchR ic inp r (rest, replicate n None) of
        y # _ \<Rightarrow> Some (k, take (length rest - length (fst y)) rest, snd y)
      | [] \<Rightarrow>
          (case rest of
             [] \<Rightarrow> None
           | _ # rest' \<Rightarrow> exec_loop ic inp r n rest' (k + 1)))"

declare exec_loop.simps [simp del]

definition RegExp_exec :: "'a RegExp_scheme \<Rightarrow> string \<Rightarrow> (nat \<times> string \<times> string option list) option" where
  "RegExp_exec re str = exec_loop (ignoreCase re) str (re_body re) (re_groups re) str 0"

definition RegExp_test :: "'a RegExp_scheme \<Rightarrow> string \<Rightarrow> bool" where
  "RegExp_test re str = (RegExp_exec re str \<noteq> None)"

section \<open>Options and values\<close>

text \<open>
  One options object serves \<open>parse\<close>, \<open>tokensToFunction\<close>, \<open>tokensToRegexp\<close> and
  \<open>regexpToFunction\<close>; an absent option is \<^term>\<open>None\<close>.  The hooks are pure functions.
  \<open>encode\<close> is called with the value and the token by the builder and with the value
  alone by the regular-expression compiler, so its second argument is optional.
\<close>

record Options = ParseOptions +
  sensitive :: "bool option"
  validate :: "bool option"
  encode :: "(string \<Rightarrow> Key option \<Rightarrow> string) option"
  decode :: "(string \<Rightarrow> Key \<Rightarrow> string) option"
  strict :: "bool option"
  end_flag :: "bool option"
  start :: "bool option"
  endsWith :: "string option"

definition default_options :: Options where
  "default_options =
     \<lparr>delimiter = None, prefixes = None, sensitive = None, validate = None, encode = None,
      decode = None, strict = None, end_flag = None, start = None, endsWith = None\<rparr>"

text \<open>\<open>options && options.sensitive ? "" : "i"\<close>.\<close>

definition flags :: "bool option \<Rightarrow> string" where
  "flags s = (if s = Some True then [] else ''i'')"

text \<open>
  The values a parameter can have: a string, a number (integers only, rendered in
  decimal by \<open>String\<close>), an array of strings, or anything else.  A missing property is
  \<^term>\<open>None\<close> in the parameter object.
\<close>

datatype js_value = VString string | VNumber int | VArray "string list" | VOther

type_synonym params = "string \<rightharpoonup> js_value"

fun digits_of :: "nat \<Rightarrow> string" where
  "digits_of n = (if n < 10 then [char_of (48 + n)] else digits_of (n div 10) @ [char_of (48 + n mod 10)])"

declare digits_of.simps [simp del]

definition String_of_int :: "int \<Rightarrow> string" where
  "String_of_int i = (if i < 0 then ''-'' @ digits_of (nat (- i)) else digits_of (nat i))"

text \<open>The property key under which a Key's name is looked up or stored.\<close>

fun prop_key :: "key_name \<Rightarrow> string" where
  "prop_key (Named s) = s"
| "prop_key (Ordinal n) = digits_of n"

section \<open>Path builder\<close>

definition is_optional :: "Key \<Rightarrow> bool" where
  "is_optional k \<longleftrightarrow> modifier k = ''?'' \<or> modifier k = ''*''"

definition is_repeat :: "Key \<Rightarrow> bool" where
  "is_repeat k \<longleftrightarrow> modifier k = ''*'' \<or> modifier k = ''+''"

text \<open>\<open>matches\<close>: one validation expression per Key, \<open>undefined\<close> for a literal.\<close>

fun build_matches :: "string \<Rightarrow> Token list \<Rightarrow> error + RegExp option list" where
  "build_matches reFlags [] = Inr []"
| "build_matches reFlags (Str s # ts) =
     (case build_matches reFlags ts of Inl e \<Rightarrow> Inl e | Inr ms \<Rightarrow> Inr (None # ms))"
| "build_matches reFlags (KeyT k # ts) =
     (case RegExp_new (''^(?:'' @ pattern k @ '')$'') reFlags of
        Inl e \<Rightarrow> Inl e
      | Inr re \<Rightarrow>
          (case build_matches reFlags ts of Inl e \<Rightarrow> Inl e | Inr ms \<Rightarrow> Inr (Some re # ms)))"

text \<open>Validating one segment and appending it with the prefix and suffix.\<close>

definition add_segment ::
    "bool \<Rightarrow> bool \<Rightarrow> Key \<Rightarrow> RegExp option \<Rightarrow> string \<Rightarrow> string \<Rightarrow> error + string" where
  "add_segment val all k m segment pth =
     (if val then
        (case m of
           None \<Rightarrow> Inl UndefinedProperty
         | Some re \<Rightarrow>
             if \<not> RegExp_test re segment
             then Inl (ValueDoesNotMatchPattern all (name k) (pattern k) segment)
             else Inr (pth @ prefix k @ segment @ suffix k))
      else Inr (pth @ prefix k @ segment @ suffix k))"

text \<open>The loop over the elements of an array value.\<close>

fun add_segments ::
    "(string \<Rightarrow> Key option \<Rightarrow> string) \<Rightarrow> bool \<Rightarrow> Key \<Rightarrow> RegExp option \<Rightarrow> string list \<Rightarrow> string
      \<Rightarrow> error + string" where
  "add_segments enc val k m [] pth = Inr pth"
| "add_segments enc val k m (v # vs) pth =
     (case add_segment val True k m (enc v (Some k)) pth of
        Inl e \<Rightarrow> Inl e
      | Inr pth' \<Rightarrow> add_segments enc val k m vs pth')"

text \<open>The loop of the returned function over the tokens and their expressions.\<close>

fun build_loop ::
    "(string \<Rightarrow> Key option \<Rightarrow> string) \<Rightarrow> bool \<Rightarrow> params option \<Rightarrow> (Token \<times> RegExp option) list
      \<Rightarrow> string \<Rightarrow> error + string" where
  "build_loop enc val data [] pth = Inr pth"
| "build_loop enc val data ((Str s, m) # rest) pth = build_loop enc val data rest (pth @ s)"
| "build_loop enc val data ((KeyT k, m) # rest) pth =
     (case (case data of None \<Rightarrow> None | Some d \<Rightarrow> d (prop_key (name k))) of
        Some (VArray vs) \<Rightarrow>
          if \<not> is_repeat k then Inl (NotRepeatable (name k))
          else if vs = [] then
            (if is_optional k then build_loop enc val data rest pth
             else Inl (EmptyRepeatable (name k)))
          else
            (case add_segments enc val k m vs pth of
               Inl e \<Rightarrow> Inl e
             | Inr pth' \<Rightarrow> build_loop enc val data rest pth')
      | Some (VString v) \<Rightarrow>
          (case add_segment val False k m (enc v (Some k)) pth of
             Inl e \<Rightarrow> Inl e
           | Inr pth' \<Rightarrow> build_loop enc val data rest pth')
      | Some (VNumber i) \<Rightarrow>
          (case add_segment val False k m (enc (String_of_int i) (Some k)) pth of
             Inl e \<Rightarrow> Inl e
           | Inr pth' \<Rightarrow> build_loop enc val data rest pth')
      | _ \<Rightarrow>
          if is_optional k then build_loop enc val data rest pth
          else Inl (ExpectedStringOrArray (name k) (if is_repeat k then ''an array'' else ''a string'')))"

type_synonym PathFunction = "params option \<Rightarrow> error + string"

definition tokensToFunction :: "Token list \<Rightarrow> Options \<Rightarrow> error + PathFunction" where
  "tokensToFunction tokens options =
     (let reFlags = flags (sensitive options);
          enc = (case encode options of None \<Rightarrow> (\<lambda>x t. x) | Some f \<Rightarrow> f);
          val = (case validate options of None \<Rightarrow> True | Some b \<Rightarrow> b)
      in case build_matches reFlags tokens of
           Inl e \<Rightarrow> Inl e
         | Inr matches \<Rightarrow> Inr (\<lambda>data. build_loop enc val data (zip tokens matches) []))"

definition compile :: "string \<Rightarrow> Options \<Rightarrow> error + PathFunction" where
  "compile str options =
     (case parse str options of
        Inl e \<Rightarrow> Inl e
      | Inr tokens \<Rightarrow> tokensToFunction tokens options)"

section \<open>Pattern-to-regex compiler\<close>

text \<open>The text appended to \<open>route\<close> for a Key, from its escaped prefix and suffix.\<close>

definition key_fragment :: "string \<Rightarrow> string \<Rightarrow> Key \<Rightarrow> string" where
  "key_fragment pre suf k =
     (if pattern k \<noteq> [] then
        (if pre \<noteq> [] \<or> suf \<noteq> [] then
           (if modifier k = ''+'' \<or> modifier k = ''*'' then
              ''(?:'' @ pre @ ''((?:'' @ pattern k @ '')(?:'' @ suf @ pre @ ''(?:'' @ pattern k @ ''))*)''
                @ suf @ '')'' @ (if modifier k = ''*'' then ''?'' else [])
            else ''(?:'' @ pre @ ''('' @ pattern k @ '')'' @ suf @ '')'' @ modifier k)
         else ''('' @ pattern k @ '')'' @ modifier k)
      else ''(?:'' @ pre @ suf @ '')'' @ modifier k)"

text \<open>
  The loop over the tokens: \<open>route\<close> grows, and a Key with a pattern is pushed to \<open>keys\<close>
  when the caller passed a list.
\<close>

fun route_loop ::
    "(string \<Rightarrow> Key option \<Rightarrow> string) \<Rightarrow> Token list \<Rightarrow> string \<Rightarrow> Key list option
      \<Rightarrow> string \<times> Key list option" where
  "route_loop enc [] route keys = (route, keys)"
| "route_loop enc (Str s # ts) route keys =
     route_loop enc ts (route @ escapeString (enc s None)) keys"
| "route_loop enc (KeyT k # ts) route keys =
     route_loop enc ts
       (route @ key_fragment (escapeString (enc (prefix k) None)) (escapeString (enc (suffix k) None)) k)
       (if pattern k \<noteq> [] then map_option (\<lambda>ks. ks @ [k]) keys else keys)"

text \<open>\<open>endToken[endToken.length - 1]\<close> as the argument of \<open>indexOf\<close>.\<close>

definition last_char_string :: "string \<Rightarrow> string" where
  "last_char_string s = (if s = [] then ''undefined'' else [last s])"

definition isEndDelimited :: "string \<Rightarrow> Token list \<Rightarrow> bool" where
  "isEndDelimited delim tokens =
     (if tokens = [] then True
      else
        (case last tokens of
           Str s \<Rightarrow> js_includes delim (last_char_string s)
         | KeyT k \<Rightarrow> False))"

definition route_end :: "Token list \<Rightarrow> Options \<Rightarrow> string" where
  "route_end tokens options =
     (let strict' = (case strict options of None \<Rightarrow> False | Some b \<Rightarrow> b);
          end' = (case end_flag options of None \<Rightarrow> True | Some b \<Rightarrow> b);
          endsWith' = ''['' @ escapeString (or_empty (endsWith options)) @ '']|$'';
          delim = ''['' @ escapeString (delimiter_or_default (delimiter options)) @ '']''
      in
      if end' then
        (if \<not> strict' then delim @ ''?'' else [])
          @ (if \<not> truthy (endsWith options) then ''$'' else ''(?='' @ endsWith' @ '')'')
      else
        (if \<not> strict' then ''(?:'' @ delim @ ''(?='' @ endsWith' @ ''))?'' else [])
          @ (if \<not> isEndDelimited delim tokens then ''(?='' @ delim @ ''|'' @ endsWith' @ '')'' else []))"

text \<open>The source and the keys \<open>tokensToRegexp\<close> arrives at, before \<open>new RegExp\<close>.\<close>

definition tokensToRoute :: "Token list \<Rightarrow> Key list option \<Rightarrow> Options \<Rightarrow> string \<times> Key list option" where
  "tokensToRoute tokens keys options =
     (let enc = (case encode options of None \<Rightarrow> (\<lambda>x t. x) | Some f \<Rightarrow> f);
          start' = (case start options of None \<Rightarrow> True | Some b \<Rightarrow> b);
          r = route_loop enc tokens (if start' then ''^'' else []) keys
      in (fst r @ route_end tokens options, snd r))"

definition tokensToRegexp :: "Token list \<Rightarrow> Key list option \<Rightarrow> Options \<Rightarrow> error + (RegExp \<times> Key list option)" where
  "tokensToRegexp tokens keys options =
     (let r = tokensToRoute tokens keys options
      in case RegExp_new (fst r) (flags (sensitive options)) of
           Inl e \<Rightarrow> Inl e
         | Inr re \<Rightarrow> Inr (re, snd r))"

definition stringToRegexp :: "string \<Rightarrow> Key list option \<Rightarrow> Options \<Rightarrow> error + (RegExp \<times> Key list option)" where
  "stringToRegexp pth keys options =
     (case parse pth options of
        Inl e \<Rightarrow> Inl e
      | Inr tokens \<Rightarrow> tokensToRegexp tokens keys options)"

text \<open>
  A path is a string or an array of strings.  (The source also accepts ready-made
  regular expressions, which are not modelled.)
\<close>

datatype Path = PString string | PArray "string list"

text \<open>\<open>parts.join("|")\<close>.\<close>

fun join_bar :: "string list \<Rightarrow> string" where
  "join_bar [] = []"
| "join_bar [p] = p"
| "join_bar (p # ps) = p @ ''|'' @ join_bar ps"

text \<open>The property \<open>source\<close> of an expression made from the empty string is \<open>(?:)\<close>.\<close>

definition source_of :: "RegExp \<Rightarrow> string" where
  "source_of re = (if source re = [] then ''(?:)'' else source re)"

text \<open>The \<open>map\<close> of \<open>arrayToRegexp\<close>: each path compiled in turn, pushing to the same keys.\<close>

fun array_parts :: "string list \<Rightarrow> Key list option \<Rightarrow> Options \<Rightarrow> error + (string list \<times> Key list option)" where
  "array_parts [] keys options = Inr ([], keys)"
| "array_parts (p # ps) keys options =
     (case stringToRegexp p keys options of
        Inl e \<Rightarrow> Inl e
      | Inr r \<Rightarrow>
          (case array_parts ps (snd r) options of
             Inl e \<Rightarrow> Inl e
           | Inr rs \<Rightarrow> Inr (source_of (fst r) # fst rs, snd rs)))"

definition arrayToRegexp :: "string list \<Rightarrow> Key list option \<Rightarrow> Options \<Rightarrow> error + (RegExp \<times> Key list option)" where
  "arrayToRegexp paths keys options =
     (case array_parts paths keys options of
        Inl e \<Rightarrow> Inl e
      | Inr r \<Rightarrow>
          (case RegExp_new (''(?:'' @ join_bar (fst r) @ '')'') (flags (sensitive options)) of
             Inl e \<Rightarrow> Inl e
           | Inr re \<Rightarrow> Inr (re, snd r)))"

definition pathToRegexp :: "Path \<Rightarrow> Key list option \<Rightarrow> Options \<Rightarrow> error + (RegExp \<times> Key list option)" where
  "pathToRegexp pth keys options =
     (case pth of
        PArray paths \<Rightarrow> arrayToRegexp paths keys options
      | PString str \<Rightarrow> stringToRegexp str keys options)"

section \<open>Matcher\<close>

text \<open>\<open>s.split(sep)\<close> for a string separator.\<close>

function split_loop :: "string \<Rightarrow> string \<Rightarrow> string \<Rightarrow> string list" where
  "split_loop s sep cur =
     (if s = [] \<or> sep = [] then [cur]
      else if take (length sep) s = sep then cur # split_loop (drop (length sep) s) sep []
      else split_loop (tl s) sep (cur @ [hd s]))"
  by pat_completeness auto
termination
  by (relation "measure (\<lambda>(s, sep, cur). length s)") auto

declare split_loop.simps [simp del]

definition js_split :: "string \<Rightarrow> string \<Rightarrow> string list" where
  "js_split s sep = (if sep = [] then map (\<lambda>c. [c]) s else split_loop s sep [])"

record MatchResult =
  path :: string
  index :: nat
  params :: params

text \<open>
  The loop over the captures \<open>m[1]\<close>, \<open>m[2]\<close>, ...: \<open>i\<close> is the index of the first
  capture of the list.  \<open>keys[i - 1]\<close> beyond the end of \<open>keys\<close> is \<open>undefined\<close>, and
  reading its \<open>modifier\<close> throws.
\<close>

definition decode_capture :: "(string \<Rightarrow> Key \<Rightarrow> string) \<Rightarrow> Key \<Rightarrow> string \<Rightarrow> js_value" where
  "decode_capture dec k v =
     (if modifier k = ''*'' \<or> modifier k = ''+''
      then VArray (map (\<lambda>x. dec x k) (js_split v (prefix k @ suffix k)))
      else VString (dec v k))"

fun params_loop ::
    "(string \<Rightarrow> Key \<Rightarrow> string) \<Rightarrow> Key list \<Rightarrow> string option list \<Rightarrow> nat \<Rightarrow> params \<Rightarrow> error + params" where
  "params_loop dec keys [] i ps = Inr ps"
| "params_loop dec keys (c # cs) i ps =
     (case c of
        None \<Rightarrow> params_loop dec keys cs (i + 1) ps
      | Some v \<Rightarrow>
          if i - 1 < length keys then
            params_loop dec keys cs (i + 1)
              (ps(prop_key (name (keys ! (i - 1))) \<mapsto> decode_capture dec (keys ! (i - 1)) v))
          else Inl UndefinedProperty)"

type_synonym MatchFunction = "string \<Rightarrow> error + MatchResult option"

definition regexpToFunction :: "RegExp \<Rightarrow> Key list \<Rightarrow> Options \<Rightarrow> MatchFunction" where
  "regexpToFunction re keys options =
     (let dec = (case decode options of None \<Rightarrow> (\<lambda>x k. x) | Some f \<Rightarrow> f)
      in (\<lambda>pathname.
            case RegExp_exec re pathname of
              None \<Rightarrow> Inr None
            | Some m \<Rightarrow>
                (case params_loop dec keys (snd (snd m)) 1 Map.empty of
                   Inl e \<Rightarrow> Inl e
                 | Inr ps \<Rightarrow> Inr (Some \<lparr>path = fst (snd m), index = fst m, params = ps\<rparr>))))"

definition or_keys :: "Key list option \<Rightarrow> Key list" where
  "or_keys ks = (case ks of None \<Rightarrow> [] | Some l \<Rightarrow> l)"

text \<open>The exported function: \<open>match(str, options)\<close>.\<close>

definition match_fn :: "Path \<Rightarrow> Options \<Rightarrow> error + MatchFunction" where
  "match_fn str options =
     (case pathToRegexp str (Some []) options of
        Inl e \<Rightarrow> Inl e
      | Inr r \<Rightarrow> Inr (regexpToFunction (fst r) (or_keys (snd r)) options))"

text \<open>\<open>match(str, options)(pathname)\<close>: compiling and matching in one step.\<close>

definition run_match :: "Path \<Rightarrow> Options \<Rightarrow> string \<Rightarrow> error + MatchResult option" where
  "run_match str options pathname =
     (case match_fn str options of Inl e \<Rightarrow> Inl e | Inr f \<Rightarrow> f pathname)"

text \<open>\<open>compile(str, options)(data)\<close>: compiling and building in one step.\<close>

definition run_build :: "string \<Rightarrow> Options \<Rightarrow> params option \<Rightarrow> error + string" where
  "run_build str options data =
     (case compile str options of Inl e \<Rightarrow> Inl e | Inr f \<Rightarrow> f data)"


section \<open>Malformed patterns\<close>

lemma lexer_colon_paren: "lexer ''/:('' = Inl (MissingParameterName 1)"
  by code_simp

lemma lexer_slash_paren: "lexer ''/('' = Inl (UnbalancedPattern 1)"
  by code_simp

lemma lexer_error_compile:
  "lexer str = Inl e \<Longrightarrow>
     compile str options = Inl e \<and> match_fn (PString str) options = Inl e"
  by (simp add: compile_def match_fn_def pathToRegexp_def stringToRegexp_def parse_def)

text \<open>
  Claim C2, as stated: compiling \<open>/:(\<close> fails with UnbalancedPattern.  It does not: the
  lexer reaches the colon first, finds no name after it and throws
  MissingParameterName at offset 1, with the default options.
\<close>

theorem colon_paren_not_unbalanced:
  "compile ''/:('' default_options = Inl (MissingParameterName 1)
   \<and> match_fn (PString ''/:('') default_options = Inl (MissingParameterName 1)
   \<and> MissingParameterName 1 \<noteq> UnbalancedPattern 1"
  using lexer_error_compile [OF lexer_colon_paren, of default_options] by simp

text \<open>
  Claim C2, amended: for every choice of options, compiling \<open>/:(\<close> (as a builder or as a
  matcher) fails with MissingParameterName at offset 1, the offset of the colon; the
  pattern \<open>/(\<close>, whose parenthesis the lexer does reach, fails with UnbalancedPattern at
  offset 1, the offset of the parenthesis, for every choice of options.
\<close>

theorem malformed_pattern_errors:
  "compile ''/:('' options = Inl (MissingParameterName 1)
   \<and> match_fn (PString ''/:('') options = Inl (MissingParameterName 1)
   \<and> compile ''/('' options = Inl (UnbalancedPattern 1)
   \<and> match_fn (PString ''/('') options = Inl (UnbalancedPattern 1)"
  using lexer_error_compile [OF lexer_colon_paren, of options]
    lexer_error_compile [OF lexer_slash_paren, of options]
  by simp

section \<open>A trailing backslash\<close>

text \<open>
  Claim C5 at the string that is one backslash: the lexer reads \<open>str[1]\<close>, which is out
  of range, and emits an escaped-character token whose value is \<open>undefined\<close>; the end
  token gets the index 2, past the end of the string.  The parser then drops the token.
\<close>

theorem lexer_trailing_backslash:
  "lexer [backslash] = Inr [mk_tok ESCAPED_CHAR 0 None, mk_tok END 2 (Some [])]
   \<and> parse (''ab'' @ [backslash]) default_options = Inr [Str ''ab'']"
  by code_simp

section \<open>The fragment of a Key\<close>


section \<open>Values the builder rejects\<close>




section \<open>Matching concrete paths\<close>

definition default_key :: "string \<Rightarrow> string \<Rightarrow> Key" where
  "default_key n pre =
     \<lparr>name = Named n, prefix = pre, suffix = [],
      pattern = ''[^'' @ [backslash] @ ''/#'' @ [backslash] @ ''?]+?'', modifier = []\<rparr>"

lemma exec_foo:
  "(case pathToRegexp (PString '':foo'') (Some []) default_options of
      Inl e \<Rightarrow> None
    | Inr r \<Rightarrow> Some (RegExp_exec (fst r) ''/bar'', RegExp_exec (fst r) ''bar'', snd r))
   = Some (None, Some (0, ''bar'', [Some ''bar'']), Some [default_key ''foo'' []])"
  by code_simp

lemma exec_slash_foo:
  "(case pathToRegexp (PString ''/:foo'') (Some []) default_options of
      Inl e \<Rightarrow> None
    | Inr r \<Rightarrow> Some (RegExp_exec (fst r) ''/bar'', snd r))
   = Some (Some (0, ''/bar'', [Some ''bar'']), Some [default_key ''foo'' ''/''])"
  by code_simp

lemma exec_user:
  "(case pathToRegexp (PString ''/user'') (Some []) (default_options\<lparr>end_flag := Some False\<rparr>) of
      Inl e \<Rightarrow> None
    | Inr r \<Rightarrow> Some (RegExp_exec (fst r) ''/user/123'', RegExp_exec (fst r) ''/username'', snd r))
   = Some (Some (0, ''/user'', []), None, Some [])"
  by code_simp

text \<open>
  Claim C3, as stated: the matcher of \<open>:foo\<close> applied to \<open>/bar\<close> yields a result.  It
  yields \<open>false\<close>: the expression is anchored at the start and the parameter cannot
  begin with the delimiter \<open>/\<close>.
\<close>

theorem foo_does_not_match_slash_bar:
  "run_match (PString '':foo'') default_options ''/bar'' = Inr None"
  using exec_foo
  by (cases "pathToRegexp (PString '':foo'') (Some []) default_options")
    (simp_all add: run_match_def match_fn_def regexpToFunction_def or_keys_def)

text \<open>
  Claim C3, amended: with the default options the matcher of \<open>:foo\<close> yields \<open>false\<close> on
  \<open>/bar\<close> and, on \<open>bar\<close>, the result with \<open>params = {foo: "bar"}\<close> and \<open>path = "bar"\<close>;
  the matcher of \<open>/:foo\<close> applied to \<open>/bar\<close> yields \<open>params = {foo: "bar"}\<close> and
  \<open>path = "/bar"\<close>.
\<close>

theorem foo_matches:
  "run_match (PString '':foo'') default_options ''/bar'' = Inr None
   \<and> run_match (PString '':foo'') default_options ''bar''
      = Inr (Some \<lparr>path = ''bar'', index = 0, params = [''foo'' \<mapsto> VString ''bar'']\<rparr>)
   \<and> run_match (PString ''/:foo'') default_options ''/bar''
      = Inr (Some \<lparr>path = ''/bar'', index = 0, params = [''foo'' \<mapsto> VString ''bar'']\<rparr>)"
proof -
  have a: "run_match (PString '':foo'') default_options ''/bar'' = Inr None
      \<and> run_match (PString '':foo'') default_options ''bar''
        = Inr (Some \<lparr>path = ''bar'', index = 0, params = [''foo'' \<mapsto> VString ''bar'']\<rparr>)"
    using exec_foo
    by (cases "pathToRegexp (PString '':foo'') (Some []) default_options")
      (simp_all add: run_match_def match_fn_def regexpToFunction_def or_keys_def
        default_options_def decode_capture_def default_key_def)
  have b: "run_match (PString ''/:foo'') default_options ''/bar''
      = Inr (Some \<lparr>path = ''/bar'', index = 0, params = [''foo'' \<mapsto> VString ''bar'']\<rparr>)"
    using exec_slash_foo
    by (cases "pathToRegexp (PString ''/:foo'') (Some []) default_options")
      (simp_all add: run_match_def match_fn_def regexpToFunction_def or_keys_def
        default_options_def decode_capture_def default_key_def)
  from a b show ?thesis by simp
qed

text \<open>
  Claim C8: the matcher of \<open>/user\<close> compiled with \<open>end: false\<close> (other options default)
  matches the prefix \<open>/user\<close> of \<open>/user/123\<close> at index 0, and returns \<open>false\<close> for
  \<open>/username\<close>, where the character after the prefix is not a delimiter.
\<close>

theorem end_false_prefix_match:
  "run_match (PString ''/user'') (default_options\<lparr>end_flag := Some False\<rparr>) ''/user/123''
     = Inr (Some \<lparr>path = ''/user'', index = 0, params = Map.empty\<rparr>)
   \<and> run_match (PString ''/user'') (default_options\<lparr>end_flag := Some False\<rparr>) ''/username'' = Inr None"
  using exec_user
  by (cases "pathToRegexp (PString ''/user'') (Some []) (default_options\<lparr>end_flag := Some False\<rparr>)")
    (simp_all add: run_match_def match_fn_def regexpToFunction_def or_keys_def)

section \<open>Repeated parameters with a prefix and a suffix\<close>

lemma build_seg:
  "run_build ''{/:seg-}+'' default_options (Some [''seg'' \<mapsto> VArray [''a'', ''b'']]) = Inr ''/a-/b-''"
  by code_simp

lemma exec_seg:
  "(case pathToRegexp (PString ''{/:seg-}+'') (Some []) default_options of
      Inl e \<Rightarrow> None
    | Inr r \<Rightarrow> Some (RegExp_exec (fst r) ''/a-/b-'', snd r))
   = Some (Some (0, ''/a-/b-'', [Some ''a-/b'']),
       Some [(default_key ''seg'' ''/'')\<lparr>suffix := ''-'', modifier := ''+''\<rparr>])"
  by code_simp

lemma split_seg: "js_split ''a-/b'' ''/-'' = [''a-/b'']"
  by code_simp

text \<open>
  Claim C4 at the pattern \<open>{/:seg-}+\<close> (prefix \<open>/\<close>, suffix \<open>-\<close>): the builder renders
  the elements \<open>a\<close>, \<open>b\<close> as \<open>/a-/b-\<close>, the expression captures \<open>a-/b\<close> (the repetitions
  joined by suffix followed by prefix), and the matcher splits the capture on prefix
  followed by suffix, \<open>/-\<close>, which does not occur: the result is the one element \<open>a-/b\<close>,
  not the elements \<open>a\<close> and \<open>b\<close>.
\<close>

theorem repeat_split_mismatch:
  "run_build ''{/:seg-}+'' default_options (Some [''seg'' \<mapsto> VArray [''a'', ''b'']]) = Inr ''/a-/b-''
   \<and> run_match (PString ''{/:seg-}+'') default_options ''/a-/b-''
      = Inr (Some \<lparr>path = ''/a-/b-'', index = 0, params = [''seg'' \<mapsto> VArray [''a-/b'']]\<rparr>)"
proof -
  have "run_match (PString ''{/:seg-}+'') default_options ''/a-/b-''
      = Inr (Some \<lparr>path = ''/a-/b-'', index = 0, params = [''seg'' \<mapsto> VArray [''a-/b'']]\<rparr>)"
    using exec_seg
    by (cases "pathToRegexp (PString ''{/:seg-}+'') (Some []) default_options")
      (simp_all add: run_match_def match_fn_def regexpToFunction_def or_keys_def
        default_options_def decode_capture_def default_key_def split_seg)
  with build_seg show ?thesis by simp
qed

section \<open>The parameters of a match\<close>











section \<open>Capturing groups and keys\<close>

text \<open>
  The capturing groups of a regular-expression source, counted on the text: an opening
  parenthesis that is not escaped, not inside a character class and not followed by a
  question mark opens a capturing group.  The scanner keeps a mode and the count.
\<close>

datatype scan_mode = Normal | Escaped | AfterOpen | InClass | InClassEscaped

fun scan_char :: "scan_mode \<times> nat \<Rightarrow> char \<Rightarrow> scan_mode \<times> nat" where
  "scan_char (Normal, n) c =
     (if c = backslash then (Escaped, n)
      else if c = CHR ''['' then (InClass, n)
      else if c = CHR ''('' then (AfterOpen, n)
      else (Normal, n))"
| "scan_char (Escaped, n) c = (Normal, n)"
| "scan_char (AfterOpen, n) c =
     (if c = CHR ''?'' then (Normal, n)
      else if c = backslash then (Escaped, n + 1)
      else if c = CHR ''['' then (InClass, n + 1)
      else if c = CHR ''('' then (AfterOpen, n + 1)
      else (Normal, n + 1))"
| "scan_char (InClass, n) c =
     (if c = backslash then (InClassEscaped, n)
      else if c = CHR '']'' then (Normal, n)
      else (InClass, n))"
| "scan_char (InClassEscaped, n) c = (InClass, n)"

definition scan :: "string \<Rightarrow> scan_mode \<times> nat \<Rightarrow> scan_mode \<times> nat" where
  "scan s st = foldl scan_char st s"



lemma scan_Nil [simp]: "scan [] st = st"
  by (simp add: scan_def)

lemma scan_Cons [simp]: "scan (c # s) st = scan s (scan_char st c)"
  by (simp add: scan_def)

lemma scan_append [simp]: "scan (a @ b) st = scan b (scan a st)"
  by (simp add: scan_def)





lemma backslash_escaped: "backslash \<in> set escaped_chars"
  by (simp add: escaped_chars_def)


lemma scan_escapeString_class: "scan (escapeString x) (InClass, n) = (InClass, n)"
proof (induction x)
  case Nil
  show ?case by (simp add: escapeString_def)
next
  case (Cons c x)
  have e: "escapeString (c # x) = (if c \<in> set escaped_chars then [backslash, c] else [c]) @ escapeString x"
    by (simp add: escapeString_def)
  show ?case
  proof (cases "c \<in> set escaped_chars")
    case True
    with e Cons show ?thesis by simp
  next
    case False
    then have "c \<noteq> backslash" "c \<noteq> CHR '']''"
      by (auto simp: escaped_chars_def)
    with e False Cons show ?thesis by simp
  qed
qed

lemma bs_neq [simp]: "backslash \<noteq> CHR ''(''" "backslash \<noteq> CHR ''[''" "backslash \<noteq> CHR '']''"
  "backslash \<noteq> CHR ''?''" "backslash \<noteq> CHR '')''" "backslash \<noteq> CHR '':''" "backslash \<noteq> CHR ''=''"
  "backslash \<noteq> CHR ''|''" "backslash \<noteq> CHR ''$''" "backslash \<noteq> CHR ''*''" "backslash \<noteq> CHR ''^''"
  "backslash \<noteq> CHR ''+''" "backslash \<noteq> CHR ''!''"
  "CHR ''('' \<noteq> backslash" "CHR ''['' \<noteq> backslash" "CHR '']'' \<noteq> backslash"
  "CHR ''?'' \<noteq> backslash" "CHR '')'' \<noteq> backslash" "CHR '':'' \<noteq> backslash" "CHR ''='' \<noteq> backslash"
  "CHR ''|'' \<noteq> backslash" "CHR ''$'' \<noteq> backslash" "CHR ''*'' \<noteq> backslash" "CHR ''^'' \<noteq> backslash"
  "CHR ''+'' \<noteq> backslash" "CHR ''!'' \<noteq> backslash"
  by (simp_all add: backslash_def)











lemma scan_class_text: "scan (''['' @ escapeString d @ '']'' @ rest) (Normal, n) = scan rest (Normal, n)"
  by (simp add: scan_escapeString_class)
































subsection \<open>The Keys the parser produces\<close>




























section \<open>Building a path and matching it again\<close>

subsection \<open>Sequences and the default parameter pattern\<close>

text \<open>
  Matching the terms of a sequence one after another; \<open>seq_of\<close> nests them to the right,
  and the matcher visits the same states in the same order.
\<close>

fun mseq :: "bool \<Rightarrow> string \<Rightarrow> regex list \<Rightarrow> mstate \<Rightarrow> mstate list" where
  "mseq ic inp [] x = [x]"
| "mseq ic inp (r # rs) x = concat (map (mseq ic inp rs) (matchR ic inp r x))"

lemma concat_map_singleton: "concat (map (\<lambda>y. [y]) xs) = xs"
  by (induction xs) simp_all


lemma mseq_Nil_fun: "mseq ic inp [] = (\<lambda>y. [y])"
  by (rule ext) simp

lemma mseq_single: "mseq ic inp [r] x = matchR ic inp r x"
  by (simp add: mseq_Nil_fun concat_map_singleton)



definition delim :: "char \<Rightarrow> bool" where
  "delim c \<longleftrightarrow> c = CHR ''/'' \<or> c = CHR ''#'' \<or> c = CHR ''?''"

definition delim_items :: "class_item list" where
  "delim_items = [CChar (CHR ''/''), CChar (CHR ''#''), CChar (CHR ''?'')]"




definition not_delim_class :: regex where
  "not_delim_class = RClass True delim_items"

definition delim_class :: regex where
  "delim_class = RClass False delim_items"




lemma reset_caps_class [simp]: "reset_caps not_delim_class caps = caps"
  by (simp add: reset_caps_def not_delim_class_def)



subsection \<open>Paths made of literal characters and parameter values\<close>

text \<open>
  A piece of a compiled route is a literal character or the capturing group of the
  parameter with the given number.  \<open>ureg\<close> is the term of the expression, \<open>utext\<close> the
  text the builder writes for it.  A route is separated when every parameter is followed
  by the end of the route or by a literal delimiter character.
\<close>

datatype piece = UChar char | UPar nat

fun ureg :: "piece \<Rightarrow> regex" where
  "ureg (UChar c) = RChar c"
| "ureg (UPar i) = RGroup i (RPlus False not_delim_class)"




fun caps_after :: "(nat \<Rightarrow> string) \<Rightarrow> piece list \<Rightarrow> string option list \<Rightarrow> string option list" where
  "caps_after vals [] caps = caps"
| "caps_after vals (UChar c # us) caps = caps_after vals us caps"
| "caps_after vals (UPar i # us) caps = caps_after vals us (caps[i - 1 := Some (vals i)])"



lemma reset_caps_delim [simp]: "reset_caps delim_class caps = caps"
  by (simp add: reset_caps_def delim_class_def)









subsection \<open>Lexing the source of a compiled route\<close>

definition cons_toks :: "rtok list \<Rightarrow> error + rtok list \<Rightarrow> error + rtok list" where
  "cons_toks ts r = (case r of Inl e \<Rightarrow> Inl e | Inr ts' \<Rightarrow> Inr (ts @ ts'))"

lemma cons_toks_Nil [simp]: "cons_toks [] r = r"
  by (cases r) (simp_all add: cons_toks_def)

lemma cons_toks_Cons: "cons_toks (t # ts) r = cons_tok t (cons_toks ts r)"
  by (cases r) (simp_all add: cons_toks_def cons_tok_def)


lemma cons_tok_toks: "cons_tok t r = cons_toks [t] r"
  by (simp add: cons_toks_Cons)
















subsection \<open>Routes of named parameters with the default pattern\<close>

















subsection \<open>The expression of a simple route\<close>












subsection \<open>Executing the expression of a simple route\<close>



lemma ureg_chars: "map ureg (map UChar s) = map RChar s"
  by (induction s) simp_all





subsection \<open>The keys and the captures of a simple route\<close>





lemma caps_after_chars [simp]: "caps_after vals (map UChar s) caps = caps"
  by (induction s) simp_all




subsection \<open>The builder on a simple route\<close>

















subsection \<open>The round trip\<close>


















end
